theory Spec2Isabelle
  imports Main "HOL-Library.Word"
begin

unbundle bit_operations_syntax

section \<open>Street light controller on the PIC16F877A: data model\<close>

text \<open>
  The repository holds three builds of one firmware: \<^verbatim>\<open>main.c\<close>, \<^verbatim>\<open>Auto Light Intensity.c\<close>
  and \<^verbatim>\<open>Auto Light extra.c\<close>. The timer handler, the light control and the display driver
  are the same text in all three; the third build adds the sunrise and sunset log. The
  model follows the third build and names the places where the others differ.

  Every \<^verbatim>\<open>unsigned char\<close> is an 8-bit word. The display driver writes only the six
  PORTD lines of the display, so its functions work on a record of those lines and of
  the bus log; the rest of the program works on the machine state, which holds that
  record. The bus log is everything the display sees: a strobe is logged at each
  falling edge of the enable line, with the levels of the register-select and data
  lines at that moment, and each busy-wait is logged with its length.
\<close>

type_synonym u8 = "8 word"

datatype lcd_event =
    Strobe bool bool bool bool bool  \<comment> \<open>RS, D7, D6, D5, D4 when EN falls\<close>
  | Delay_us nat
  | Delay_ms nat

record lcd_port =
  LCD_RS :: bool  \<comment> \<open>RD0\<close>
  LCD_EN :: bool  \<comment> \<open>RD3\<close>
  LCD_D4 :: bool
  LCD_D5 :: bool
  LCD_D6 :: bool
  LCD_D7 :: bool
  bus :: "lcd_event list"

record mcu =
  TMR2IF :: bool  \<comment> \<open>\<^verbatim>\<open>PIR1bits.TMR2IF\<close>\<close>
  seconds :: u8
  minutes :: u8
  hours :: u8
  sunrise_h :: u8
  sunrise_m :: u8
  sunset_h :: u8
  sunset_m :: u8
  prevLDRState :: u8
  RC1 :: bool  \<comment> \<open>\<^verbatim>\<open>PORTCbits.RC1\<close>, the lamp\<close>
  lcd :: lcd_port

text \<open>The globals at reset, from their initialisers: the clock starts at 22:00:00, both
  log entries at 00:00 and the latch at 0. The port lines, which \<^verbatim>\<open>Port_Init\<close> clears
  before the program uses them, are taken low, and nothing has been sent yet.\<close>

definition boot :: mcu where
  "boot = \<lparr> TMR2IF = False, seconds = 0, minutes = 0, hours = 22,
            sunrise_h = 0, sunrise_m = 0, sunset_h = 0, sunset_m = 0,
            prevLDRState = 0, RC1 = False,
            lcd = \<lparr> LCD_RS = False, LCD_EN = False,
                    LCD_D4 = False, LCD_D5 = False, LCD_D6 = False, LCD_D7 = False,
                    bus = [] \<rparr> \<rparr>"

section \<open>The Timer2 interrupt handler\<close>

text \<open>
  \<^verbatim>\<open>
  if(PIR1bits.TMR2IF) {
      PIR1bits.TMR2IF = 0;
      seconds++;
      if(seconds >= 60) {
          seconds = 0; minutes++;
          if(minutes >= 60) {
              minutes = 0; hours++;
              if(hours >= 24) hours = 0;
          }
      }
  }
  \<close>
  The increments are on \<^verbatim>\<open>unsigned char\<close> and wrap at 256.
\<close>

definition hours_carry :: "mcu \<Rightarrow> mcu" where
  "hours_carry s =
     (let s1 = s\<lparr>minutes := 0\<rparr>;
          s2 = s1\<lparr>hours := hours s1 + 1\<rparr>
      in if hours s2 \<ge> 24 then s2\<lparr>hours := 0\<rparr> else s2)"

definition minutes_carry :: "mcu \<Rightarrow> mcu" where
  "minutes_carry s =
     (let s1 = s\<lparr>seconds := 0\<rparr>;
          s2 = s1\<lparr>minutes := minutes s1 + 1\<rparr>
      in if minutes s2 \<ge> 60 then hours_carry s2 else s2)"

definition ISR :: "mcu \<Rightarrow> mcu" where
  "ISR s =
     (if TMR2IF s then
        (let s1 = s\<lparr>TMR2IF := False\<rparr>;
             s2 = s1\<lparr>seconds := seconds s1 + 1\<rparr>
         in if seconds s2 \<ge> 60 then minutes_carry s2 else s2)
      else s)"

text \<open>One tick: Timer2 reaches its period and raises \<^verbatim>\<open>TMR2IF\<close>, the only interrupt
  source the program enables, and the handler runs to completion.\<close>

definition tick :: "mcu \<Rightarrow> mcu" where
  "tick s = ISR (s\<lparr>TMR2IF := True\<rparr>)"

definition valid_clock :: "mcu \<Rightarrow> bool" where
  "valid_clock s = (hours s < 24 \<and> minutes s < 60 \<and> seconds s < 60)"

section \<open>The display driver\<close>

definition delay_us :: "nat \<Rightarrow> lcd_port \<Rightarrow> lcd_port" where
  "delay_us n p = p\<lparr>bus := bus p @ [Delay_us n]\<rparr>"

definition delay_ms :: "nat \<Rightarrow> lcd_port \<Rightarrow> lcd_port" where
  "delay_ms n p = p\<lparr>bus := bus p @ [Delay_ms n]\<rparr>"

text \<open>\<^verbatim>\<open>LCD_EN = 1; __delay_us(1); LCD_EN = 0;\<close> The enable line falls at the last
  assignment, and the display latches the other five lines there.\<close>

definition EN_pulse :: "lcd_port \<Rightarrow> lcd_port" where
  "EN_pulse p =
     (let p1 = p\<lparr>LCD_EN := True\<rparr>;
          p2 = delay_us 1 p1
      in p2\<lparr>LCD_EN := False,
             bus := bus p2 @ [Strobe (LCD_RS p2) (LCD_D7 p2) (LCD_D6 p2) (LCD_D5 p2) (LCD_D4 p2)]\<rparr>)"

text \<open>\<^verbatim>\<open>LCD_D4 = (cmd >> 4) & 1;\<close> and so on: a line is high when the masked value is
  not zero.\<close>

definition put_nibbles :: "bool \<Rightarrow> u8 \<Rightarrow> lcd_port \<Rightarrow> lcd_port" where
  "put_nibbles rs b p =
     (let p1 = p\<lparr>LCD_RS := rs\<rparr>;
          p2 = p1\<lparr>LCD_D4 := (drop_bit 4 b AND 1 \<noteq> 0), LCD_D5 := (drop_bit 5 b AND 1 \<noteq> 0),
                  LCD_D6 := (drop_bit 6 b AND 1 \<noteq> 0), LCD_D7 := (drop_bit 7 b AND 1 \<noteq> 0)\<rparr>;
          p3 = EN_pulse p2;
          p4 = p3\<lparr>LCD_D4 := (b AND 1 \<noteq> 0), LCD_D5 := (drop_bit 1 b AND 1 \<noteq> 0),
                  LCD_D6 := (drop_bit 2 b AND 1 \<noteq> 0), LCD_D7 := (drop_bit 3 b AND 1 \<noteq> 0)\<rparr>;
          p5 = EN_pulse p4
      in delay_ms 2 p5)"

text \<open>\<^verbatim>\<open>LCD_Command\<close> and \<^verbatim>\<open>LCD_Data\<close> are the same text but for the first line,
  \<^verbatim>\<open>LCD_RS = 0;\<close> or \<^verbatim>\<open>LCD_RS = 1;\<close>.\<close>

definition LCD_Command :: "u8 \<Rightarrow> lcd_port \<Rightarrow> lcd_port" where
  "LCD_Command cmd p = put_nibbles False cmd p"

definition LCD_Data :: "u8 \<Rightarrow> lcd_port \<Rightarrow> lcd_port" where
  "LCD_Data dat p = put_nibbles True dat p"

text \<open>\<^verbatim>\<open>while(*str) LCD_Data(*str++);\<close> The list holds the characters of the buffer; the
  loop stops at the first zero byte, and the end of the list is the terminator of a
  literal.\<close>

fun LCD_String :: "string \<Rightarrow> lcd_port \<Rightarrow> lcd_port" where
  "LCD_String [] p = p"
| "LCD_String (c # cs) p =
     (if (of_char c :: u8) = 0 then p else LCD_String cs (LCD_Data (of_char c) p))"

definition LCD_Clear :: "lcd_port \<Rightarrow> lcd_port" where
  "LCD_Clear p = delay_ms 2 (LCD_Command 0x01 p)"

text \<open>\<^verbatim>\<open>LCD_Command((row == 1 ? 0x80 : 0xC0) + col - 1);\<close> The sum is taken in \<^verbatim>\<open>int\<close> and
  cut to eight bits when it is passed, which is the sum of 8-bit words.\<close>

definition LCD_SetCursor :: "u8 \<Rightarrow> u8 \<Rightarrow> lcd_port \<Rightarrow> lcd_port" where
  "LCD_SetCursor row col p = LCD_Command ((if row = 1 then 0x80 else 0xC0) + col - 1) p"

text \<open>\<^verbatim>\<open>LCD_Init\<close> of the third build; the other two end with one more wait of 2 ms.\<close>

definition LCD_Init :: "lcd_port \<Rightarrow> lcd_port" where
  "LCD_Init p =
     (let p1 = delay_ms 20 p;
          p2 = LCD_Command 0x02 p1;
          p3 = LCD_Command 0x28 p2;
          p4 = LCD_Command 0x0C p3;
          p5 = LCD_Command 0x06 p4
      in LCD_Command 0x01 p5)"

section \<open>The presenter\<close>

text \<open>\<^verbatim>\<open>Update_Display\<close> of the third build tests \<^verbatim>\<open>level\<close> for being non-zero.\<close>

definition Update_Display :: "u8 \<Rightarrow> u8 \<Rightarrow> u8 \<Rightarrow> lcd_port \<Rightarrow> lcd_port" where
  "Update_Display isNight motion level p =
     (let p1 = LCD_SetCursor 1 1 p;
          p2 = LCD_String (if isNight \<noteq> 0 then ''Night '' else ''Day   '') p1;
          p3 = LCD_String ''M:'' p2;
          p4 = LCD_String (if motion \<noteq> 0 then ''YES '' else ''NO  '') p3;
          p5 = LCD_SetCursor 2 1 p4;
          p6 = LCD_String ''Light:'' p5
      in LCD_String (if level \<noteq> 0 then ''ON   '' else ''OFF  '') p6)"

text \<open>\<^verbatim>\<open>Update_Display\<close> of \<^verbatim>\<open>main.c\<close> and of the second build tests \<^verbatim>\<open>level == 2\<close>.\<close>

definition Update_Display_main :: "u8 \<Rightarrow> u8 \<Rightarrow> u8 \<Rightarrow> lcd_port \<Rightarrow> lcd_port" where
  "Update_Display_main isNight motion level p =
     (let p1 = LCD_SetCursor 1 1 p;
          p2 = LCD_String (if isNight \<noteq> 0 then ''Night '' else ''Day   '') p1;
          p3 = LCD_String ''M:'' p2;
          p4 = LCD_String (if motion \<noteq> 0 then ''YES '' else ''NO  '') p3;
          p5 = LCD_SetCursor 2 1 p4;
          p6 = LCD_String ''Light:'' p5
      in LCD_String (if level = 2 then ''ON   '' else ''OFF  '') p6)"

definition LCD_Print_Time :: "u8 \<Rightarrow> u8 \<Rightarrow> lcd_port \<Rightarrow> lcd_port" where
  "LCD_Print_Time h m p =
     (let p1 = LCD_Data (h div 10 + of_char CHR ''0'') p;
          p2 = LCD_Data (h mod 10 + of_char CHR ''0'') p1;
          p3 = LCD_Data (of_char CHR '':'') p2;
          p4 = LCD_Data (m div 10 + of_char CHR ''0'') p3
      in LCD_Data (m mod 10 + of_char CHR ''0'') p4)"

definition Show_Sunrise_Sunset :: "mcu \<Rightarrow> mcu" where
  "Show_Sunrise_Sunset s =
     (let p1 = LCD_Clear (lcd s);
          p2 = LCD_SetCursor 1 1 p1;
          p3 = LCD_String ''Sunrise:'' p2;
          p4 = LCD_Print_Time (sunrise_h s) (sunrise_m s) p3;
          p5 = LCD_SetCursor 2 1 p4;
          p6 = LCD_String ''Sunset :'' p5;
          p7 = LCD_Print_Time (sunset_h s) (sunset_m s) p6;
          p8 = delay_ms 5000 p7
      in s\<lparr>lcd := LCD_Clear p8\<rparr>)"

section \<open>The main program\<close>

text \<open>
  What one pass of the loop takes from outside: the two sensor lines, and how many timer
  interrupts are served at the two places that matter to the clock's only reader,
  before the edge test and between the copy of \<^verbatim>\<open>hours\<close> and the copy of \<^verbatim>\<open>minutes\<close>.
  The program never masks the interrupt, and an interrupt served anywhere else in the
  pass changes nothing the pass reads, so it is counted with the next pass.
\<close>

record inputs =
  RB0 :: bool  \<comment> \<open>\<^verbatim>\<open>PORTBbits.RB0\<close>, the light sensor, high when dark\<close>
  RD2 :: bool  \<comment> \<open>\<^verbatim>\<open>PORTDbits.RD2\<close>, the motion sensor\<close>
  irq_pre :: nat
  irq_mid :: nat

datatype edge = SUNRISE | SUNSET

text \<open>Lines 366 to 378 of the third build. The first component of the result names the
  branch taken; the program itself returns nothing.\<close>

definition log_edge :: "inputs \<Rightarrow> u8 \<Rightarrow> mcu \<Rightarrow> edge option \<times> mcu" where
  "log_edge i isNight s =
     (if prevLDRState s = 1 \<and> isNight = 0 then
        (let s1 = s\<lparr>sunrise_h := hours s\<rparr>;
             s2 = (tick ^^ irq_mid i) s1;
             s3 = s2\<lparr>sunrise_m := minutes s2\<rparr>
         in (Some SUNRISE, Show_Sunrise_Sunset s3))
      else if prevLDRState s = 0 \<and> isNight = 1 then
        (let s1 = s\<lparr>sunset_h := hours s\<rparr>;
             s2 = (tick ^^ irq_mid i) s1;
             s3 = s2\<lparr>sunset_m := minutes s2\<rparr>
         in (Some SUNSET, Show_Sunrise_Sunset s3))
      else (None, s))"

text \<open>The light control, the same text in the three builds. The second component is
  \<^verbatim>\<open>brightness\<close>: 0 is OFF and 2 is FULL.\<close>

definition light_control :: "u8 \<Rightarrow> u8 \<Rightarrow> mcu \<Rightarrow> mcu \<times> u8" where
  "light_control isNight motion s =
     (if isNight = 0 then (s\<lparr>RC1 := False\<rparr>, 0)
      else if motion \<noteq> 0 then (s\<lparr>RC1 := True\<rparr>, 2)
      else (s\<lparr>RC1 := False\<rparr>, 0))"

definition main_cycle :: "inputs \<Rightarrow> mcu \<Rightarrow> edge option \<times> mcu" where
  "main_cycle i s =
     (let isNight = of_bool (RB0 i);
          motion = of_bool (RD2 i);
          s1 = (tick ^^ irq_pre i) s;
          (ev, s2) = log_edge i isNight s1;
          s3 = s2\<lparr>prevLDRState := isNight\<rparr>;
          (s4, brightness) = light_control isNight motion s3;
          s5 = s4\<lparr>lcd := Update_Display isNight motion brightness (lcd s4)\<rparr>
      in (ev, s5\<lparr>lcd := delay_ms 150 (lcd s5)\<rparr>))"

text \<open>The loop body of \<^verbatim>\<open>main.c\<close> and of the second build: no edge test, no latch.\<close>

definition main_cycle_basic :: "inputs \<Rightarrow> mcu \<Rightarrow> mcu" where
  "main_cycle_basic i s =
     (let isNight = of_bool (RB0 i);
          motion = of_bool (RD2 i);
          s1 = (tick ^^ irq_pre i) s;
          (s2, brightness) = light_control isNight motion s1;
          s3 = s2\<lparr>lcd := Update_Display_main isNight motion brightness (lcd s2)\<rparr>
      in s3\<lparr>lcd := delay_ms 150 (lcd s3)\<rparr>)"

text \<open>The passes of the loop over a list of inputs, with the branch each pass took and
  the state it left.\<close>

fun run :: "inputs list \<Rightarrow> mcu \<Rightarrow> (edge option \<times> mcu) list" where
  "run [] s = []"
| "run (i # is) s = (let r = main_cycle i s in r # run is (snd r))"

text \<open>
  The program before the loop: \<^verbatim>\<open>System_Init\<close> (of which \<^verbatim>\<open>Port_Init\<close> clears the lamp
  and PORTD, and \<^verbatim>\<open>LCD_Init\<close> talks to the display), the banner, and the first read of
  the light sensor into the latch. The timer runs from \<^verbatim>\<open>Interrupt_Init\<close> on: \<open>irq\<close> is
  the number of interrupts served until the loop is entered.
\<close>

definition Port_Init :: "mcu \<Rightarrow> mcu" where
  "Port_Init s =
     s\<lparr>RC1 := False,
       lcd := (lcd s)\<lparr>LCD_RS := False, LCD_EN := False, LCD_D4 := False,
                       LCD_D5 := False, LCD_D6 := False, LCD_D7 := False\<rparr>\<rparr>"

definition main_startup :: "bool \<Rightarrow> nat \<Rightarrow> mcu \<Rightarrow> mcu" where
  "main_startup rb0 irq s =
     (let s1 = Port_Init s;
          s2 = (tick ^^ irq) s1;
          p1 = LCD_Init (lcd s2);
          p2 = LCD_Clear p1;
          p3 = LCD_String ''Street Light'' p2;
          p4 = LCD_SetCursor 2 1 p3;
          p5 = LCD_String ''Controller'' p4;
          p6 = delay_ms 2000 p5;
          p7 = LCD_Clear p6
      in s2\<lparr>lcd := p7, prevLDRState := of_bool rb0\<rparr>)"

section \<open>What the display receives\<close>

text \<open>One byte on the bus: the high nibble, then the low nibble, each held for a
  microsecond before the enable line falls, then 2 ms of settling.\<close>

definition transfer :: "bool \<Rightarrow> u8 \<Rightarrow> lcd_event list" where
  "transfer rs b =
     [Delay_us 1, Strobe rs (bit b 7) (bit b 6) (bit b 5) (bit b 4),
      Delay_us 1, Strobe rs (bit b 3) (bit b 2) (bit b 1) (bit b 0),
      Delay_ms 2]"

definition command_ev :: "u8 \<Rightarrow> lcd_event list" where
  "command_ev c = transfer False c"

definition text_ev :: "string \<Rightarrow> lcd_event list" where
  "text_ev str = concat (map (\<lambda>c. transfer True (of_char c)) str)"

definition clear_ev :: "lcd_event list" where
  "clear_ev = command_ev 0x01 @ [Delay_ms 2]"

text \<open>A time as the spec writes it: two decimal digits, a colon, two decimal digits.\<close>

definition digit :: "nat \<Rightarrow> char" where
  "digit d = ''0123456789'' ! d"

definition HHMM :: "nat \<Rightarrow> nat \<Rightarrow> string" where
  "HHMM h m = [digit (h div 10), digit (h mod 10), CHR '':'', digit (m div 10), digit (m mod 10)]"

text \<open>The two screens: the status screen, and the sunrise and sunset screen with its
  dwell of five seconds between two clears.\<close>

definition status_frame :: "bool \<Rightarrow> bool \<Rightarrow> bool \<Rightarrow> lcd_event list" where
  "status_frame night motion on =
     command_ev 0x80 @
     text_ev ((if night then ''Night '' else ''Day   '') @ ''M:'' @
              (if motion then ''YES '' else ''NO  '')) @
     command_ev 0xC0 @
     text_ev (''Light:'' @ (if on then ''ON   '' else ''OFF  ''))"

definition overlay_frame :: "string \<Rightarrow> string \<Rightarrow> lcd_event list" where
  "overlay_frame row1 row2 =
     clear_ev @ command_ev 0x80 @ text_ev row1 @ command_ev 0xC0 @ text_ev row2 @
     [Delay_ms 5000] @ clear_ev"

text \<open>The cursor operation as the spec words it, to compare with \<open>LCD_SetCursor\<close>: the
  command byte is the base address of the row plus the column minus one, and the
  operation fails (\<open>None\<close>) for a row other than 1 and 2 or a column outside 1 to 16.\<close>

definition setCursor_spec :: "u8 \<Rightarrow> u8 \<Rightarrow> u8 option" where
  "setCursor_spec row col =
     (if (row = 1 \<or> row = 2) \<and> 1 \<le> col \<and> col \<le> 16
      then Some ((if row = 1 then 0x80 else 0xC0) + col - 1)
      else None)"

text \<open>The sunrise and sunset log as one value: sunrise hours and minutes, sunset hours
  and minutes.\<close>

definition sun_log :: "mcu \<Rightarrow> (u8 \<times> u8) \<times> (u8 \<times> u8)" where
  "sun_log s = ((sunrise_h s, sunrise_m s), (sunset_h s, sunset_m s))"

section \<open>The clock\<close>

lemma ISR_fields:
  "ISR s =
     (if TMR2IF s then
        s\<lparr>TMR2IF := False,
          seconds := (if seconds s + 1 \<ge> 60 then 0 else seconds s + 1),
          minutes := (if seconds s + 1 \<ge> 60
                      then (if minutes s + 1 \<ge> 60 then 0 else minutes s + 1)
                      else minutes s),
          hours := (if seconds s + 1 \<ge> 60 \<and> minutes s + 1 \<ge> 60
                    then (if hours s + 1 \<ge> 24 then 0 else hours s + 1)
                    else hours s)\<rparr>
      else s)"
  by (simp add: ISR_def minutes_carry_def hours_carry_def Let_def)

lemma unat_u8_inc: "unat (x::u8) < 255 \<Longrightarrow> unat (x + 1) = Suc (unat x)"
  by (simp add: unat_word_ariths)

lemma u8_inc_60: "unat x < 60 \<Longrightarrow> (60 \<le> x + 1) = (unat x = 59)" for x :: u8
  by (auto simp add: word_le_nat_alt unat_u8_inc)

lemma u8_inc_24: "unat x < 24 \<Longrightarrow> (24 \<le> x + 1) = (unat x = 23)" for x :: u8
  by (auto simp add: word_le_nat_alt unat_u8_inc)

lemma tick_seconds:
  assumes "unat (seconds s) < 60"
  shows "unat (seconds (tick s)) =
           (if unat (seconds s) = 59 then 0 else Suc (unat (seconds s)))"
  using assms by (simp add: tick_def ISR_fields u8_inc_60 unat_u8_inc)

lemma tick_minutes:
  assumes "unat (minutes s) < 60" "unat (seconds s) < 60"
  shows "unat (minutes (tick s)) =
           (if unat (seconds s) = 59
            then (if unat (minutes s) = 59 then 0 else Suc (unat (minutes s)))
            else unat (minutes s))"
  using assms by (simp add: tick_def ISR_fields u8_inc_60 unat_u8_inc)

lemma tick_hours:
  assumes "unat (hours s) < 24" "unat (minutes s) < 60" "unat (seconds s) < 60"
  shows "unat (hours (tick s)) =
           (if unat (seconds s) = 59 \<and> unat (minutes s) = 59
            then (if unat (hours s) = 23 then 0 else Suc (unat (hours s)))
            else unat (hours s))"
  using assms by (simp add: tick_def ISR_fields u8_inc_60 u8_inc_24 unat_u8_inc)

lemma valid_clock_unat:
  "valid_clock s = (unat (hours s) < 24 \<and> unat (minutes s) < 60 \<and> unat (seconds s) < 60)"
  by (simp add: valid_clock_def word_less_nat_alt)

lemma valid_clock_tick: "valid_clock s \<Longrightarrow> valid_clock (tick s)"
  unfolding valid_clock_unat
  by (simp add: tick_seconds tick_minutes tick_hours)

lemma valid_clock_ticks: "valid_clock s \<Longrightarrow> valid_clock ((tick ^^ n) s)"
  by (induction n) (simp_all add: valid_clock_tick)

lemma ISR_tick: "ISR s = (if TMR2IF s then tick s else s)"
  by (simp add: tick_def ISR_fields)

text \<open>The handler writes the flag and the clock, nothing else.\<close>

lemma tick_frame:
  "sunrise_h (tick s) = sunrise_h s" "sunrise_m (tick s) = sunrise_m s"
  "sunset_h (tick s) = sunset_h s" "sunset_m (tick s) = sunset_m s"
  "prevLDRState (tick s) = prevLDRState s" "RC1 (tick s) = RC1 s" "lcd (tick s) = lcd s"
  by (simp_all add: tick_def ISR_fields)

lemma ticks_frame:
  "sunrise_h ((tick ^^ n) s) = sunrise_h s" "sunrise_m ((tick ^^ n) s) = sunrise_m s"
  "sunset_h ((tick ^^ n) s) = sunset_h s" "sunset_m ((tick ^^ n) s) = sunset_m s"
  "prevLDRState ((tick ^^ n) s) = prevLDRState s" "RC1 ((tick ^^ n) s) = RC1 s"
  "lcd ((tick ^^ n) s) = lcd s"
  by (induction n) (simp_all add: tick_frame)

text \<open>The same steps on natural numbers.\<close>

lemma sec_step: "Suc n mod 60 = (if n mod 60 = 59 then 0 else Suc (n mod 60))"
  by (simp add: mod_Suc)

lemma div60_step: "Suc n div 60 = (if n mod 60 = 59 then Suc (n div 60) else n div 60)"
  by (simp add: div_Suc mod_Suc)

lemma min_step:
  "Suc n div 60 mod 60 =
     (if n mod 60 = 59 then (if n div 60 mod 60 = 59 then 0 else Suc (n div 60 mod 60))
      else n div 60 mod 60)"
  by (simp add: div60_step mod_Suc)

lemma div3600: "n div 3600 = n div 60 div (60::nat)"
  by (simp add: div_mult2_eq [symmetric])

lemma hour_step:
  "Suc n div 3600 mod 24 =
     (if n mod 60 = 59 \<and> n div 60 mod 60 = 59
      then (if n div 3600 mod 24 = 23 then 0 else Suc (n div 3600 mod 24))
      else n div 3600 mod 24)"
  by (simp add: div3600 div60_step mod_Suc)

lemma ticks_clock:
  "unat (seconds ((tick ^^ n) (s\<lparr>hours := 0, minutes := 0, seconds := 0\<rparr>))) = n mod 60 \<and>
   unat (minutes ((tick ^^ n) (s\<lparr>hours := 0, minutes := 0, seconds := 0\<rparr>))) = n div 60 mod 60 \<and>
   unat (hours ((tick ^^ n) (s\<lparr>hours := 0, minutes := 0, seconds := 0\<rparr>))) = n div 3600 mod 24"
proof (induction n)
  case 0
  show ?case by simp
next
  case (Suc n)
  let ?t = "(tick ^^ n) (s\<lparr>hours := 0, minutes := 0, seconds := 0\<rparr>)"
  from Suc have S: "unat (seconds ?t) = n mod 60"
    and M: "unat (minutes ?t) = n div 60 mod 60"
    and H: "unat (hours ?t) = n div 3600 mod 24" by simp_all
  have s: "unat (seconds ?t) < 60" and m: "unat (minutes ?t) < 60" and h: "unat (hours ?t) < 24"
    by (simp_all add: S M H)
  have "unat (seconds (tick ?t)) = Suc n mod 60"
    unfolding tick_seconds [OF s] sec_step S ..
  moreover have "unat (minutes (tick ?t)) = Suc n div 60 mod 60"
    unfolding tick_minutes [OF m s] min_step S M ..
  moreover have "unat (hours (tick ?t)) = Suc n div 3600 mod 24"
    unfolding tick_hours [OF h m s] hour_step S M H ..
  ultimately show ?case by simp
qed

text \<open>
  C2. From 00:00:00, after \<open>n\<close> ticks (the timer flag raised and the handler run, \<open>n\<close> times)
  the clock reads hours \<open>n div 3600 mod 24\<close>, minutes \<open>n div 60 mod 60\<close> and seconds
  \<open>n mod 60\<close>, whatever the rest of the machine state is; after 86400 ticks it reads
  00:00:00 again.
\<close>

theorem clock_after_n_ticks:
  "unat (hours ((tick ^^ n) (s\<lparr>hours := 0, minutes := 0, seconds := 0\<rparr>))) = n div 3600 mod 24 \<and>
   unat (minutes ((tick ^^ n) (s\<lparr>hours := 0, minutes := 0, seconds := 0\<rparr>))) = n div 60 mod 60 \<and>
   unat (seconds ((tick ^^ n) (s\<lparr>hours := 0, minutes := 0, seconds := 0\<rparr>))) = n mod 60 \<and>
   hours ((tick ^^ 86400) (s\<lparr>hours := 0, minutes := 0, seconds := 0\<rparr>)) = 0 \<and>
   minutes ((tick ^^ 86400) (s\<lparr>hours := 0, minutes := 0, seconds := 0\<rparr>)) = 0 \<and>
   seconds ((tick ^^ 86400) (s\<lparr>hours := 0, minutes := 0, seconds := 0\<rparr>)) = 0"
proof -
  have "unat (hours ((tick ^^ 86400) (s\<lparr>hours := 0, minutes := 0, seconds := 0\<rparr>))) = 0"
       "unat (minutes ((tick ^^ 86400) (s\<lparr>hours := 0, minutes := 0, seconds := 0\<rparr>))) = 0"
       "unat (seconds ((tick ^^ 86400) (s\<lparr>hours := 0, minutes := 0, seconds := 0\<rparr>))) = 0"
    unfolding ticks_clock [of 86400 s, THEN conjunct1]
      ticks_clock [of 86400 s, THEN conjunct2, THEN conjunct1]
      ticks_clock [of 86400 s, THEN conjunct2, THEN conjunct2]
    by simp_all
  then show ?thesis
    using ticks_clock [of n s] by (simp add: unat_eq_0)
qed

text \<open>
  C4. The clock is a valid triple (hours below 24, minutes and seconds below 60) at
  reset, and every run of the handler keeps it one. When the timer flag is set, a valid
  clock moves as follows: seconds go up by one, or from 59 to 0 with a carry; on that
  carry minutes go up by one, or from 59 to 0 with a carry; on that carry hours go up
  by one, or from 23 to 0. With the flag clear the handler changes nothing.
\<close>

theorem clock_invariant:
  "valid_clock boot \<and>
   (valid_clock s \<longrightarrow>
      valid_clock (ISR s) \<and>
      (\<not> TMR2IF s \<longrightarrow> ISR s = s) \<and>
      (TMR2IF s \<longrightarrow>
         seconds (ISR s) = (if seconds s = 59 then 0 else seconds s + 1) \<and>
         minutes (ISR s) =
           (if seconds s = 59 then (if minutes s = 59 then 0 else minutes s + 1)
            else minutes s) \<and>
         hours (ISR s) =
           (if seconds s = 59 \<and> minutes s = 59
            then (if hours s = 23 then 0 else hours s + 1)
            else hours s)))"
proof (intro conjI impI)
  show "valid_clock boot"
    by (simp add: valid_clock_def boot_def)
next
  assume v: "valid_clock s"
  then show "valid_clock (ISR s)"
    by (simp add: ISR_tick valid_clock_tick)
next
  assume "\<not> TMR2IF s"
  then show "ISR s = s" by (simp add: ISR_def)
next
  assume v: "valid_clock s" and f: "TMR2IF s"
  from v have b: "unat (hours s) < 24" "unat (minutes s) < 60" "unat (seconds s) < 60"
    by (simp_all add: valid_clock_unat)
  have e: "(unat (seconds s) = 59) = (seconds s = 59)" "(unat (minutes s) = 59) = (minutes s = 59)"
    "(unat (hours s) = 23) = (hours s = 23)"
    by (simp_all add: word_unat_eq_iff)
  show "seconds (ISR s) = (if seconds s = 59 then 0 else seconds s + 1)"
    using f b by (simp add: ISR_fields u8_inc_60 e)
  show "minutes (ISR s) =
           (if seconds s = 59 then (if minutes s = 59 then 0 else minutes s + 1)
            else minutes s)"
    using f b by (simp add: ISR_fields u8_inc_60 e)
  show "hours (ISR s) =
           (if seconds s = 59 \<and> minutes s = 59
            then (if hours s = 23 then 0 else hours s + 1)
            else hours s)"
    using f b by (simp add: ISR_fields u8_inc_60 u8_inc_24 e)
qed

theorem clock_invariant_witness:
  "valid_clock (boot\<lparr>TMR2IF := True, hours := 23, minutes := 59, seconds := 59\<rparr>) \<and>
   valid_clock (ISR (boot\<lparr>TMR2IF := True, hours := 23, minutes := 59, seconds := 59\<rparr>)) \<and>
   hours (ISR (boot\<lparr>TMR2IF := True, hours := 23, minutes := 59, seconds := 59\<rparr>)) = 0 \<and>
   minutes (ISR (boot\<lparr>TMR2IF := True, hours := 23, minutes := 59, seconds := 59\<rparr>)) = 0 \<and>
   seconds (ISR (boot\<lparr>TMR2IF := True, hours := 23, minutes := 59, seconds := 59\<rparr>)) = 0"
proof -
  have v: "valid_clock (boot\<lparr>TMR2IF := True, hours := 23, minutes := 59, seconds := 59\<rparr>)"
    by (simp add: valid_clock_def boot_def)
  show ?thesis
    using v clock_invariant [of "boot\<lparr>TMR2IF := True, hours := 23, minutes := 59, seconds := 59\<rparr>"]
    by simp
qed

section \<open>The light control\<close>

text \<open>
  C1. The decision table of the light control, on every sample: by day the decision is
  OFF (0) whatever the motion line reads; by night it is OFF without motion and FULL (2)
  with motion. The lamp line RC1 is high exactly when the decision is FULL, for every
  value of the two variables, and after a pass of the loop (of either build) it is
  high exactly when both sensor lines were high.
\<close>

theorem light_decision_table:
  "snd (light_control 0 motion s) = 0 \<and>
   snd (light_control 1 0 s) = 0 \<and>
   snd (light_control 1 1 s) = 2 \<and>
   snd (light_control (of_bool n) (of_bool m) s) = (if n \<and> m then 2 else 0) \<and>
   RC1 (fst (light_control isNight motion s)) = (snd (light_control isNight motion s) = 2) \<and>
   fst (light_control isNight motion s) = s\<lparr>RC1 := (snd (light_control isNight motion s) = 2)\<rparr> \<and>
   RC1 (snd (main_cycle i s)) = (RB0 i \<and> RD2 i) \<and>
   RC1 (main_cycle_basic i s) = (RB0 i \<and> RD2 i)"
  by (simp add: light_control_def main_cycle_def main_cycle_basic_def Let_def split: prod.split)

section \<open>The display\<close>

lemma bit_mask0: "(b AND 1 \<noteq> 0) = bit b 0" for b :: u8
  by (simp add: and_one_eq mod_2_eq_odd bit_0)

lemma bus_put_nibbles: "bus (put_nibbles rs b p) = bus p @ transfer rs b"
  by (simp add: put_nibbles_def EN_pulse_def delay_us_def delay_ms_def transfer_def Let_def
      bit_mask0 bit_drop_bit_eq)

lemma bus_LCD_Command: "bus (LCD_Command c p) = bus p @ command_ev c"
  by (simp add: LCD_Command_def command_ev_def bus_put_nibbles)

lemma bus_LCD_Data: "bus (LCD_Data d p) = bus p @ transfer True d"
  by (simp add: LCD_Data_def bus_put_nibbles)

text \<open>The bus events of a byte determine the byte and the register-select level, so a
  statement about the bus log fixes the bytes the display receives.\<close>

lemma u8_eq_bits:
  assumes "bit a 0 = bit b 0" "bit a 1 = bit b 1" "bit a 2 = bit b 2" "bit a 3 = bit b 3"
    "bit a 4 = bit b 4" "bit a 5 = bit b 5" "bit a 6 = bit b 6" "bit a 7 = bit b 7"
  shows "a = (b::u8)"
proof (rule bit_word_eqI)
  fix n :: nat
  assume "n < LENGTH(8)"
  then have "n = 0 \<or> n = 1 \<or> n = 2 \<or> n = 3 \<or> n = 4 \<or> n = 5 \<or> n = 6 \<or> n = 7"
    by auto
  with assms show "bit a n = bit b n"
    by (elim disjE) simp_all
qed

lemma transfer_inject:
  assumes "transfer rs a = transfer rs' b"
  shows "rs = rs' \<and> a = b"
proof
  from assms show "rs = rs'" by (simp add: transfer_def)
  from assms have "bit a 0 = bit b 0" "bit a 1 = bit b 1" "bit a 2 = bit b 2"
    "bit a 3 = bit b 3" "bit a 4 = bit b 4" "bit a 5 = bit b 5" "bit a 6 = bit b 6"
    "bit a 7 = bit b 7"
    by (simp_all add: transfer_def)
  then show "a = b" by (rule u8_eq_bits)
qed

lemma text_ev_simps:
  "text_ev [] = []" "text_ev (c # cs) = transfer True (of_char c) @ text_ev cs"
  "text_ev (xs @ ys) = text_ev xs @ text_ev ys"
  by (simp_all add: text_ev_def)

lemma bus_LCD_String:
  "bus (LCD_String str p) = bus p @ text_ev (takeWhile (\<lambda>c. (of_char c :: u8) \<noteq> 0) str)"
  by (induction str arbitrary: p) (simp_all add: text_ev_simps bus_LCD_Data)

lemma bus_LCD_Clear: "bus (LCD_Clear p) = bus p @ clear_ev"
  by (simp add: LCD_Clear_def delay_ms_def clear_ev_def bus_LCD_Command)

lemma bus_LCD_SetCursor:
  "bus (LCD_SetCursor row col p) = bus p @ command_ev ((if row = 1 then 0x80 else 0xC0) + col - 1)"
  by (simp add: LCD_SetCursor_def bus_LCD_Command)

lemma bus_Update_Display:
  "bus (Update_Display isNight motion level p) =
     bus p @ status_frame (isNight \<noteq> 0) (motion \<noteq> 0) (level \<noteq> 0)"
  by (simp add: Update_Display_def Let_def status_frame_def bus_LCD_String bus_LCD_SetCursor
      text_ev_simps del: LCD_String.simps)

lemma bus_Update_Display_main:
  "bus (Update_Display_main isNight motion level p) =
     bus p @ status_frame (isNight \<noteq> 0) (motion \<noteq> 0) (level = 2)"
  by (simp add: Update_Display_main_def Let_def status_frame_def bus_LCD_String
      bus_LCD_SetCursor text_ev_simps del: LCD_String.simps)

lemma of_char_digit:
  assumes "d < 10"
  shows "(of_char (digit d) :: u8) = of_nat d + 48"
proof -
  from assms have "d = 0 \<or> d = 1 \<or> d = 2 \<or> d = 3 \<or> d = 4 \<or> d = 5 \<or> d = 6 \<or> d = 7 \<or> d = 8 \<or> d = 9"
    by arith
  then show ?thesis
    by (elim disjE) (simp_all add: digit_def)
qed

lemma u8_div10: "h div 10 = (of_nat (unat h div 10) :: u8)"
  by (simp add: unat_div [symmetric, of h 10, simplified])

lemma u8_mod10: "h mod 10 = (of_nat (unat h mod 10) :: u8)"
  by (simp add: unat_mod [symmetric, of h 10, simplified])

lemma two_digits:
  assumes "unat (h::u8) < 100"
  shows "h div 10 + of_char CHR ''0'' = of_char (digit (unat h div 10))"
    and "h mod 10 + of_char CHR ''0'' = of_char (digit (unat h mod 10))"
proof -
  from assms have "unat h div 10 < 10" by simp
  then show "h div 10 + of_char CHR ''0'' = of_char (digit (unat h div 10))"
    by (simp add: of_char_digit u8_div10 [symmetric])
  have "unat h mod 10 < 10" by simp
  then show "h mod 10 + of_char CHR ''0'' = of_char (digit (unat h mod 10))"
    by (simp add: of_char_digit u8_mod10 [symmetric])
qed

lemma bus_LCD_Print_Time:
  assumes "unat h < 100" "unat m < 100"
  shows "bus (LCD_Print_Time h m p) = bus p @ text_ev (HHMM (unat h) (unat m))"
  unfolding LCD_Print_Time_def Let_def bus_LCD_Data two_digits [OF assms(1)]
    two_digits [OF assms(2)] HHMM_def text_ev_simps
  by simp

lemma bus_Show_Sunrise_Sunset:
  assumes "unat (sunrise_h s) < 100" "unat (sunrise_m s) < 100"
    "unat (sunset_h s) < 100" "unat (sunset_m s) < 100"
  shows "bus (lcd (Show_Sunrise_Sunset s)) =
           bus (lcd s) @
           overlay_frame (''Sunrise:'' @ HHMM (unat (sunrise_h s)) (unat (sunrise_m s)))
                         (''Sunset :'' @ HHMM (unat (sunset_h s)) (unat (sunset_m s)))"
  by (simp add: Show_Sunrise_Sunset_def Let_def overlay_frame_def bus_LCD_Clear
      bus_LCD_SetCursor bus_LCD_String bus_LCD_Print_Time [OF assms(1,2)]
      bus_LCD_Print_Time [OF assms(3,4)] delay_ms_def text_ev_simps del: LCD_String.simps)

lemma Show_Sunrise_Sunset_frame:
  "Show_Sunrise_Sunset s = s\<lparr>lcd := lcd (Show_Sunrise_Sunset s)\<rparr>"
  by (simp add: Show_Sunrise_Sunset_def Let_def)

text \<open>
  C7. The status screen is a function of the three arguments alone: whatever the state
  of the display lines and whatever was sent before, \<open>Update_Display\<close> sends the same
  bytes, so a second call with the same arguments sends them again. They are: cursor to
  row 1 column 1 (command 0x80), \<open>Night \<close> or \<open>Day   \<close>, \<open>M:\<close>, \<open>YES \<close> or \<open>NO  \<close>, cursor
  to row 2 column 1 (command 0xC0), \<open>Light:\<close>, \<open>ON   \<close> or \<open>OFF  \<close>. The third build shows
  ON for a level other than 0, the other two for level 2; the loop passes 0 or 2.
\<close>

theorem update_display_frame:
  "bus (Update_Display isNight motion level p) =
     bus p @ command_ev 0x80 @
     text_ev ((if isNight \<noteq> 0 then ''Night '' else ''Day   '') @ ''M:'' @
              (if motion \<noteq> 0 then ''YES '' else ''NO  '')) @
     command_ev 0xC0 @
     text_ev (''Light:'' @ (if level \<noteq> 0 then ''ON   '' else ''OFF  '')) \<and>
   bus (Update_Display_main isNight motion level p) =
     bus p @ command_ev 0x80 @
     text_ev ((if isNight \<noteq> 0 then ''Night '' else ''Day   '') @ ''M:'' @
              (if motion \<noteq> 0 then ''YES '' else ''NO  '')) @
     command_ev 0xC0 @
     text_ev (''Light:'' @ (if level = 2 then ''ON   '' else ''OFF  '')) \<and>
   bus (Update_Display isNight motion level (Update_Display isNight motion level p)) =
     bus (Update_Display isNight motion level p) @
     status_frame (isNight \<noteq> 0) (motion \<noteq> 0) (level \<noteq> 0) \<and>
   bus (Update_Display isNight motion level p) =
     bus p @ status_frame (isNight \<noteq> 0) (motion \<noteq> 0) (level \<noteq> 0) \<and>
   bus (Update_Display isNight motion level q) =
     bus q @ status_frame (isNight \<noteq> 0) (motion \<noteq> 0) (level \<noteq> 0)"
  by (simp add: bus_Update_Display bus_Update_Display_main status_frame_def)

text \<open>
  C8. With both stored times below 100 in each field (the clock only ever holds hours
  below 24 and minutes below 60), the sunrise and sunset screen is: clear, cursor to
  row 1 column 1, \<open>Sunrise:\<close> and the sunrise time as two digits, a colon, two digits;
  cursor to row 2 column 1, \<open>Sunset :\<close> and the sunset time in the same form; a wait of
  5000 ms; clear. Nothing but the display changes.
\<close>

theorem sun_overlay:
  assumes "sunrise_h s < 100" "sunrise_m s < 100" "sunset_h s < 100" "sunset_m s < 100"
  shows "bus (lcd (Show_Sunrise_Sunset s)) =
           bus (lcd s) @ clear_ev @
           command_ev 0x80 @
           text_ev (''Sunrise:'' @ HHMM (unat (sunrise_h s)) (unat (sunrise_m s))) @
           command_ev 0xC0 @
           text_ev (''Sunset :'' @ HHMM (unat (sunset_h s)) (unat (sunset_m s))) @
           [Delay_ms 5000] @ clear_ev \<and>
         Show_Sunrise_Sunset s = s\<lparr>lcd := lcd (Show_Sunrise_Sunset s)\<rparr>"
proof -
  from assms have "unat (sunrise_h s) < 100" "unat (sunrise_m s) < 100"
    "unat (sunset_h s) < 100" "unat (sunset_m s) < 100"
    by (simp_all add: word_less_nat_alt)
  from bus_Show_Sunrise_Sunset [OF this] Show_Sunrise_Sunset_frame [of s]
  show ?thesis by (simp add: overlay_frame_def)
qed

theorem sun_overlay_witness:
  "sunrise_h (boot\<lparr>sunrise_h := 6, sunrise_m := 5, sunset_h := 18, sunset_m := 42\<rparr>) < 100 \<and>
   sunrise_m (boot\<lparr>sunrise_h := 6, sunrise_m := 5, sunset_h := 18, sunset_m := 42\<rparr>) < 100 \<and>
   sunset_h (boot\<lparr>sunrise_h := 6, sunrise_m := 5, sunset_h := 18, sunset_m := 42\<rparr>) < 100 \<and>
   sunset_m (boot\<lparr>sunrise_h := 6, sunrise_m := 5, sunset_h := 18, sunset_m := 42\<rparr>) < 100 \<and>
   bus (lcd (Show_Sunrise_Sunset
      (boot\<lparr>sunrise_h := 6, sunrise_m := 5, sunset_h := 18, sunset_m := 42\<rparr>))) =
     clear_ev @ command_ev 0x80 @ text_ev ''Sunrise:06:05'' @
     command_ev 0xC0 @ text_ev ''Sunset :18:42'' @ [Delay_ms 5000] @ clear_ev"
proof -
  let ?w = "boot\<lparr>sunrise_h := 6, sunrise_m := 5, sunset_h := 18, sunset_m := 42\<rparr>"
  have h: "sunrise_h ?w < 100" "sunrise_m ?w < 100" "sunset_h ?w < 100" "sunset_m ?w < 100"
    by simp_all
  have b: "bus (lcd ?w) = []" by (simp add: boot_def)
  show ?thesis
    using sun_overlay [OF h] h b by (simp add: HHMM_def digit_def)
qed

text \<open>
  C6 as the spec states it fails on the code: \<open>LCD_SetCursor\<close> has no check and no way
  to fail. Row 3, column 17 is outside both ranges; the call sends the command 0xD0 as
  any other call sends its byte, and is the call for row 2, column 17.
\<close>

theorem setCursor_out_of_range_counterexample:
  "setCursor_spec 3 17 = None \<and>
   bus (LCD_SetCursor 3 17 (lcd boot)) = command_ev 0xD0 \<and>
   LCD_SetCursor 3 17 (lcd boot) = LCD_SetCursor 2 17 (lcd boot)"
proof (intro conjI)
  show "setCursor_spec 3 17 = None"
    by (simp add: setCursor_spec_def)
  show "bus (LCD_SetCursor 3 17 (lcd boot)) = command_ev 0xD0"
    by (simp add: bus_LCD_SetCursor boot_def)
  show "LCD_SetCursor 3 17 (lcd boot) = LCD_SetCursor 2 17 (lcd boot)"
    by (simp add: LCD_SetCursor_def)
qed

text \<open>
  C6, amended. \<open>LCD_SetCursor\<close> never fails and checks nothing: for every row and column
  it sends one command byte, 0x80 for row 1 and 0xC0 for every other row, plus the
  column minus one, modulo 256. For row 1 or 2 and a column from 1 to 16 that is the
  byte the spec asks for; every row other than 1 is handled as row 2.
\<close>

theorem setCursor_unchecked:
  "bus (LCD_SetCursor row col p) =
     bus p @ command_ev ((if row = 1 then 0x80 else 0xC0) + col - 1) \<and>
   (\<forall>c. setCursor_spec row col = Some c \<longrightarrow>
      bus (LCD_SetCursor row col p) = bus p @ command_ev c) \<and>
   (row \<noteq> 1 \<longrightarrow> LCD_SetCursor row col p = LCD_SetCursor 2 col p)"
proof (intro conjI allI impI)
  show "bus (LCD_SetCursor row col p) =
          bus p @ command_ev ((if row = 1 then 0x80 else 0xC0) + col - 1)"
    by (rule bus_LCD_SetCursor)
next
  fix c
  assume "setCursor_spec row col = Some c"
  then have "c = (if row = 1 then 0x80 else 0xC0) + col - 1"
    by (simp add: setCursor_spec_def split: if_splits)
  then show "bus (LCD_SetCursor row col p) = bus p @ command_ev c"
    by (simp only: bus_LCD_SetCursor)
next
  assume "row \<noteq> 1"
  then show "LCD_SetCursor row col p = LCD_SetCursor 2 col p"
    by (simp add: LCD_SetCursor_def)
qed

theorem setCursor_unchecked_witness:
  "setCursor_spec 2 1 = Some 0xC0 \<and>
   bus (LCD_SetCursor 2 1 (lcd boot)) = bus (lcd boot) @ command_ev 0xC0 \<and>
   (3::u8) \<noteq> 1 \<and> LCD_SetCursor 3 17 (lcd boot) = LCD_SetCursor 2 17 (lcd boot)"
proof -
  have s: "setCursor_spec 2 1 = Some 0xC0" by (simp add: setCursor_spec_def)
  have n: "(3::u8) \<noteq> 1" by simp
  from setCursor_unchecked [of 2 1 "lcd boot"] s
  have "bus (LCD_SetCursor 2 1 (lcd boot)) = bus (lcd boot) @ command_ev 0xC0" by blast
  moreover from setCursor_unchecked [of 3 17 "lcd boot"] n
  have "LCD_SetCursor 3 17 (lcd boot) = LCD_SetCursor 2 17 (lcd boot)" by blast
  ultimately show ?thesis using s n by blast
qed

section \<open>The loop\<close>

lemma tick_upd:
  "tick (s\<lparr>sunrise_h := v\<rparr>) = (tick s)\<lparr>sunrise_h := v\<rparr>"
  "tick (s\<lparr>sunset_h := v\<rparr>) = (tick s)\<lparr>sunset_h := v\<rparr>"
  by (simp_all add: tick_def ISR_fields)

lemma ticks_upd:
  "(tick ^^ n) (s\<lparr>sunrise_h := v\<rparr>) = ((tick ^^ n) s)\<lparr>sunrise_h := v\<rparr>"
  "(tick ^^ n) (s\<lparr>sunset_h := v\<rparr>) = ((tick ^^ n) s)\<lparr>sunset_h := v\<rparr>"
  by (induction n) (simp_all add: tick_upd)

lemma log_edge_fst:
  "fst (log_edge i n s) =
     (if prevLDRState s = 1 \<and> n = 0 then Some SUNRISE
      else if prevLDRState s = 0 \<and> n = 1 then Some SUNSET else None)"
  by (simp add: log_edge_def Let_def)

lemma log_edge_sunrise:
  "sunrise_h (snd (log_edge i n s)) = (if prevLDRState s = 1 \<and> n = 0 then hours s else sunrise_h s)"
  "sunrise_m (snd (log_edge i n s)) =
     (if prevLDRState s = 1 \<and> n = 0 then minutes ((tick ^^ irq_mid i) s) else sunrise_m s)"
  by (simp_all add: log_edge_def Let_def Show_Sunrise_Sunset_def ticks_upd ticks_frame)

lemma log_edge_sunset:
  "sunset_h (snd (log_edge i n s)) = (if prevLDRState s = 0 \<and> n = 1 then hours s else sunset_h s)"
  "sunset_m (snd (log_edge i n s)) =
     (if prevLDRState s = 0 \<and> n = 1 then minutes ((tick ^^ irq_mid i) s) else sunset_m s)"
  by (simp_all add: log_edge_def Let_def Show_Sunrise_Sunset_def ticks_upd ticks_frame)

lemma main_cycle_edge:
  "fst (main_cycle i s) =
     (if prevLDRState s = 1 \<and> \<not> RB0 i then Some SUNRISE
      else if prevLDRState s = 0 \<and> RB0 i then Some SUNSET else None)"
  by (simp add: main_cycle_def Let_def case_prod_beta log_edge_fst ticks_frame)

lemma main_cycle_latch: "prevLDRState (snd (main_cycle i s)) = of_bool (RB0 i)"
  by (simp add: main_cycle_def Let_def case_prod_beta light_control_def)

lemma main_cycle_sunrise:
  "sunrise_h (snd (main_cycle i s)) =
     (if prevLDRState s = 1 \<and> \<not> RB0 i then hours ((tick ^^ irq_pre i) s) else sunrise_h s)"
  "sunrise_m (snd (main_cycle i s)) =
     (if prevLDRState s = 1 \<and> \<not> RB0 i
      then minutes ((tick ^^ irq_mid i) ((tick ^^ irq_pre i) s)) else sunrise_m s)"
  by (simp_all add: main_cycle_def Let_def case_prod_beta light_control_def log_edge_sunrise
      ticks_frame)

lemma main_cycle_sunset:
  "sunset_h (snd (main_cycle i s)) =
     (if prevLDRState s = 0 \<and> RB0 i then hours ((tick ^^ irq_pre i) s) else sunset_h s)"
  "sunset_m (snd (main_cycle i s)) =
     (if prevLDRState s = 0 \<and> RB0 i
      then minutes ((tick ^^ irq_mid i) ((tick ^^ irq_pre i) s)) else sunset_m s)"
  by (simp_all add: main_cycle_def Let_def case_prod_beta light_control_def log_edge_sunset
      ticks_frame)

lemma run_latch: "map (prevLDRState \<circ> snd) (run is s) = map (of_bool \<circ> RB0) is"
  by (induction "is" arbitrary: s) (simp_all add: Let_def main_cycle_latch)

text \<open>
  C3. Five passes of the loop on the light-sensor readings night, night, day, day,
  night, entered with the latch at night, whatever the motion line reads and whatever
  interrupts are served: the passes report no edge, no edge, SUNRISE, no edge, SUNSET.
  The third pass writes the sunrise entry from the clock (hours as the clock stands
  when the edge is tested, minutes as it stands at the second read) and leaves the
  sunset entry; the fifth does the same for the sunset entry; the first, second and
  fourth leave the log as it was. After each pass the latch holds that pass's reading.
\<close>

theorem edge_sequence:
  assumes "prevLDRState s0 = 1"
    and "map RB0 [i1, i2, i3, i4, i5] = [True, True, False, False, True]"
  shows "map fst (run [i1, i2, i3, i4, i5] s0) = [None, None, Some SUNRISE, None, Some SUNSET] \<and>
         map (prevLDRState \<circ> snd) (run [i1, i2, i3, i4, i5] s0) = [1, 1, 0, 0, 1] \<and>
         sun_log (snd (run [i1, i2, i3, i4, i5] s0 ! 0)) = sun_log s0 \<and>
         sun_log (snd (run [i1, i2, i3, i4, i5] s0 ! 1)) = sun_log s0 \<and>
         sun_log (snd (run [i1, i2, i3, i4, i5] s0 ! 2)) =
           ((hours ((tick ^^ irq_pre i3) (snd (run [i1, i2, i3, i4, i5] s0 ! 1))),
             minutes ((tick ^^ irq_mid i3) ((tick ^^ irq_pre i3)
               (snd (run [i1, i2, i3, i4, i5] s0 ! 1))))),
            snd (sun_log s0)) \<and>
         sun_log (snd (run [i1, i2, i3, i4, i5] s0 ! 3)) =
           sun_log (snd (run [i1, i2, i3, i4, i5] s0 ! 2)) \<and>
         sun_log (snd (run [i1, i2, i3, i4, i5] s0 ! 4)) =
           (fst (sun_log (snd (run [i1, i2, i3, i4, i5] s0 ! 2))),
            (hours ((tick ^^ irq_pre i5) (snd (run [i1, i2, i3, i4, i5] s0 ! 3))),
             minutes ((tick ^^ irq_mid i5) ((tick ^^ irq_pre i5)
               (snd (run [i1, i2, i3, i4, i5] s0 ! 3))))))"
proof -
  from assms(2) have r: "RB0 i1" "RB0 i2" "\<not> RB0 i3" "\<not> RB0 i4" "RB0 i5"
    by simp_all
  note f = main_cycle_edge main_cycle_latch main_cycle_sunrise main_cycle_sunset
  show ?thesis
    using assms(1) r by (simp add: Let_def sun_log_def f)
qed

theorem edge_sequence_witness:
  "prevLDRState (boot\<lparr>prevLDRState := 1\<rparr>) = 1 \<and>
   map RB0 [\<lparr>RB0 = True, RD2 = False, irq_pre = 7, irq_mid = 0\<rparr>,
            \<lparr>RB0 = True, RD2 = True, irq_pre = 7, irq_mid = 0\<rparr>,
            \<lparr>RB0 = False, RD2 = True, irq_pre = 7, irq_mid = 0\<rparr>,
            \<lparr>RB0 = False, RD2 = False, irq_pre = 7, irq_mid = 0\<rparr>,
            \<lparr>RB0 = True, RD2 = False, irq_pre = 7, irq_mid = 0\<rparr>]
     = [True, True, False, False, True] \<and>
   map fst (run [\<lparr>RB0 = True, RD2 = False, irq_pre = 7, irq_mid = 0\<rparr>,
            \<lparr>RB0 = True, RD2 = True, irq_pre = 7, irq_mid = 0\<rparr>,
            \<lparr>RB0 = False, RD2 = True, irq_pre = 7, irq_mid = 0\<rparr>,
            \<lparr>RB0 = False, RD2 = False, irq_pre = 7, irq_mid = 0\<rparr>,
            \<lparr>RB0 = True, RD2 = False, irq_pre = 7, irq_mid = 0\<rparr>] (boot\<lparr>prevLDRState := 1\<rparr>))
     = [None, None, Some SUNRISE, None, Some SUNSET]"
proof -
  have a: "prevLDRState (boot\<lparr>prevLDRState := 1\<rparr>) = 1" by simp
  have b: "map RB0 [\<lparr>RB0 = True, RD2 = False, irq_pre = 7, irq_mid = 0\<rparr>,
            \<lparr>RB0 = True, RD2 = True, irq_pre = 7, irq_mid = 0\<rparr>,
            \<lparr>RB0 = False, RD2 = True, irq_pre = 7, irq_mid = 0\<rparr>,
            \<lparr>RB0 = False, RD2 = False, irq_pre = 7, irq_mid = 0\<rparr>,
            \<lparr>RB0 = True, RD2 = False, irq_pre = 7, irq_mid = 0\<rparr>]
     = [True, True, False, False, True]" by simp
  from edge_sequence [OF a b, THEN conjunct1] a b show ?thesis by blast
qed

text \<open>
  C5. The latch is written before the loop from a read of the light sensor, whatever it
  held (its initialiser is 0). The first pass therefore reports an edge exactly when its
  own read of the sensor differs from that first read, and none when the two reads
  agree; with the initialiser alone a dark start would have reported a sunset. After
  every pass the latch is that pass's reading, so each pass compares with the pass
  before it.
\<close>

theorem latch_from_first_sample:
  "prevLDRState (main_startup rb0 irq s) = of_bool rb0 \<and>
   fst (main_cycle i (main_startup rb0 irq s)) =
     (if rb0 \<and> \<not> RB0 i then Some SUNRISE
      else if \<not> rb0 \<and> RB0 i then Some SUNSET else None) \<and>
   fst (main_cycle (i\<lparr>RB0 := rb0\<rparr>) (main_startup rb0 irq s)) = None \<and>
   fst (main_cycle (i\<lparr>RB0 := True\<rparr>) (s\<lparr>prevLDRState := 0\<rparr>)) = Some SUNSET \<and>
   prevLDRState (snd (main_cycle i t)) = of_bool (RB0 i) \<and>
   map (prevLDRState \<circ> snd) (run js t) = map (of_bool \<circ> RB0) js"
  by (simp add: main_cycle_edge main_cycle_latch run_latch main_startup_def Let_def)

lemma bus_main_cycle:
  "bus (lcd (snd (main_cycle i s))) =
     bus (lcd (snd (log_edge i (of_bool (RB0 i)) ((tick ^^ irq_pre i) s)))) @
     status_frame (RB0 i) (RD2 i) (RB0 i \<and> RD2 i) @ [Delay_ms 150]"
  by (simp add: main_cycle_def Let_def case_prod_beta light_control_def delay_ms_def
      bus_Update_Display)

lemma log_edge_sunset_bus:
  assumes "valid_clock s" "prevLDRState s = 0"
    and "unat (sunrise_h s) < 100" "unat (sunrise_m s) < 100"
  shows "bus (lcd (snd (log_edge i 1 s))) =
           bus (lcd s) @
           overlay_frame (''Sunrise:'' @ HHMM (unat (sunrise_h s)) (unat (sunrise_m s)))
             (''Sunset :'' @ HHMM (unat (hours s)) (unat (minutes ((tick ^^ irq_mid i) s))))"
proof -
  let ?t = "(tick ^^ irq_mid i) s"
  let ?s3 = "?t\<lparr>sunset_h := hours s, sunset_m := minutes ?t\<rparr>"
  have e: "snd (log_edge i 1 s) = Show_Sunrise_Sunset ?s3"
    using assms(2) by (simp add: log_edge_def Let_def ticks_upd)
  from assms(1) have "unat (hours s) < 24" by (simp add: valid_clock_unat)
  moreover from valid_clock_ticks [OF assms(1), of "irq_mid i"] have "unat (minutes ?t) < 60"
    by (simp add: valid_clock_unat)
  ultimately have b: "unat (sunrise_h ?s3) < 100" "unat (sunrise_m ?s3) < 100"
    "unat (sunset_h ?s3) < 100" "unat (sunset_m ?s3) < 100"
    using assms(3,4) by (simp_all add: ticks_frame)
  show ?thesis
    unfolding e bus_Show_Sunrise_Sunset [OF b] by (simp add: ticks_frame)
qed

lemma log_edge_sunrise_bus:
  assumes "valid_clock s" "prevLDRState s = 1"
    and "unat (sunset_h s) < 100" "unat (sunset_m s) < 100"
  shows "bus (lcd (snd (log_edge i 0 s))) =
           bus (lcd s) @
           overlay_frame
             (''Sunrise:'' @ HHMM (unat (hours s)) (unat (minutes ((tick ^^ irq_mid i) s))))
             (''Sunset :'' @ HHMM (unat (sunset_h s)) (unat (sunset_m s)))"
proof -
  let ?t = "(tick ^^ irq_mid i) s"
  let ?s3 = "?t\<lparr>sunrise_h := hours s, sunrise_m := minutes ?t\<rparr>"
  have e: "snd (log_edge i 0 s) = Show_Sunrise_Sunset ?s3"
    using assms(2) by (simp add: log_edge_def Let_def ticks_upd)
  from assms(1) have "unat (hours s) < 24" by (simp add: valid_clock_unat)
  moreover from valid_clock_ticks [OF assms(1), of "irq_mid i"] have "unat (minutes ?t) < 60"
    by (simp add: valid_clock_unat)
  ultimately have b: "unat (sunrise_h ?s3) < 100" "unat (sunrise_m ?s3) < 100"
    "unat (sunset_h ?s3) < 100" "unat (sunset_m ?s3) < 100"
    using assms(3,4) by (simp_all add: ticks_frame)
  show ?thesis
    unfolding e bus_Show_Sunrise_Sunset [OF b] by (simp add: ticks_frame)
qed

lemma HHMM_zero: "HHMM 0 0 = ''00:00''"
  by (simp add: HHMM_def digit_def)

text \<open>
  C10. Both log entries are 00:00 at reset, the program before the loop leaves them, and
  a pass of the loop that reports no sunrise leaves the sunrise entry (likewise for
  sunset). So on the first sunset edge, with the sunrise entry still 00:00, the screen
  of that pass is \<open>Sunrise:00:00\<close> over the sunset time just logged, followed by the
  status screen; and on a first sunrise edge the second row is \<open>Sunset :00:00\<close>. No
  entry is ever marked absent.
\<close>

theorem first_edge_overlay:
  "sun_log boot = ((0, 0), (0, 0)) \<and>
   sun_log (main_startup rb0 irq s) = sun_log s \<and>
   (fst (main_cycle i s) \<noteq> Some SUNRISE \<longrightarrow>
      fst (sun_log (snd (main_cycle i s))) = fst (sun_log s)) \<and>
   (fst (main_cycle i s) \<noteq> Some SUNSET \<longrightarrow>
      snd (sun_log (snd (main_cycle i s))) = snd (sun_log s)) \<and>
   (valid_clock s \<and> fst (sun_log s) = (0, 0) \<and> fst (main_cycle i s) = Some SUNSET \<longrightarrow>
      bus (lcd (snd (main_cycle i s))) =
        bus (lcd s) @
        overlay_frame ''Sunrise:00:00''
          (''Sunset :'' @
           HHMM (unat (hours ((tick ^^ irq_pre i) s)))
                (unat (minutes ((tick ^^ irq_mid i) ((tick ^^ irq_pre i) s))))) @
        status_frame True (RD2 i) (RD2 i) @ [Delay_ms 150]) \<and>
   (valid_clock s \<and> snd (sun_log s) = (0, 0) \<and> fst (main_cycle i s) = Some SUNRISE \<longrightarrow>
      bus (lcd (snd (main_cycle i s))) =
        bus (lcd s) @
        overlay_frame
          (''Sunrise:'' @
           HHMM (unat (hours ((tick ^^ irq_pre i) s)))
                (unat (minutes ((tick ^^ irq_mid i) ((tick ^^ irq_pre i) s)))))
          ''Sunset :00:00'' @
        status_frame False (RD2 i) False @ [Delay_ms 150])"
proof (intro conjI impI)
  show "sun_log boot = ((0, 0), (0, 0))"
    by (simp add: sun_log_def boot_def)
  show "sun_log (main_startup rb0 irq s) = sun_log s"
    by (simp add: sun_log_def main_startup_def Let_def ticks_frame Port_Init_def)
next
  assume "fst (main_cycle i s) \<noteq> Some SUNRISE"
  then show "fst (sun_log (snd (main_cycle i s))) = fst (sun_log s)"
    by (auto simp add: sun_log_def main_cycle_edge main_cycle_sunrise split: if_splits)
next
  assume "fst (main_cycle i s) \<noteq> Some SUNSET"
  then show "snd (sun_log (snd (main_cycle i s))) = snd (sun_log s)"
    by (auto simp add: sun_log_def main_cycle_edge main_cycle_sunset split: if_splits)
next
  let ?s1 = "(tick ^^ irq_pre i) s"
  assume a: "valid_clock s \<and> fst (sun_log s) = (0, 0) \<and> fst (main_cycle i s) = Some SUNSET"
  then have v: "valid_clock ?s1" by (simp add: valid_clock_ticks)
  from a have p: "prevLDRState ?s1 = 0" and r: "RB0 i"
    by (simp_all add: main_cycle_edge ticks_frame split: if_splits)
  from a have z: "sunrise_h s = 0" "sunrise_m s = 0"
    by (simp_all add: sun_log_def)
  then have b: "unat (sunrise_h ?s1) < 100" "unat (sunrise_m ?s1) < 100"
    by (simp_all add: ticks_frame)
  from log_edge_sunset_bus [OF v p b, of i]
  show "bus (lcd (snd (main_cycle i s))) =
        bus (lcd s) @
        overlay_frame ''Sunrise:00:00''
          (''Sunset :'' @
           HHMM (unat (hours ((tick ^^ irq_pre i) s)))
                (unat (minutes ((tick ^^ irq_mid i) ((tick ^^ irq_pre i) s))))) @
        status_frame True (RD2 i) (RD2 i) @ [Delay_ms 150]"
    by (simp add: bus_main_cycle r z HHMM_zero ticks_frame)
next
  let ?s1 = "(tick ^^ irq_pre i) s"
  assume a: "valid_clock s \<and> snd (sun_log s) = (0, 0) \<and> fst (main_cycle i s) = Some SUNRISE"
  then have v: "valid_clock ?s1" by (simp add: valid_clock_ticks)
  from a have p: "prevLDRState ?s1 = 1" and r: "\<not> RB0 i"
    by (simp_all add: main_cycle_edge ticks_frame split: if_splits)
  from a have z: "sunset_h s = 0" "sunset_m s = 0"
    by (simp_all add: sun_log_def)
  then have b: "unat (sunset_h ?s1) < 100" "unat (sunset_m ?s1) < 100"
    by (simp_all add: ticks_frame)
  from log_edge_sunrise_bus [OF v p b, of i]
  show "bus (lcd (snd (main_cycle i s))) =
        bus (lcd s) @
        overlay_frame
          (''Sunrise:'' @
           HHMM (unat (hours ((tick ^^ irq_pre i) s)))
                (unat (minutes ((tick ^^ irq_mid i) ((tick ^^ irq_pre i) s)))))
          ''Sunset :00:00'' @
        status_frame False (RD2 i) False @ [Delay_ms 150]"
    by (simp add: bus_main_cycle r z HHMM_zero ticks_frame)
qed

theorem first_edge_overlay_witness:
  "valid_clock boot \<and> fst (sun_log boot) = (0, 0) \<and>
   fst (main_cycle \<lparr>RB0 = True, RD2 = True, irq_pre = 0, irq_mid = 0\<rparr> boot) = Some SUNSET \<and>
   fst (main_cycle \<lparr>RB0 = True, RD2 = True, irq_pre = 0, irq_mid = 0\<rparr> boot) \<noteq> Some SUNRISE \<and>
   fst (sun_log (snd (main_cycle \<lparr>RB0 = True, RD2 = True, irq_pre = 0, irq_mid = 0\<rparr> boot)))
     = (0, 0) \<and>
   bus (lcd (snd (main_cycle \<lparr>RB0 = True, RD2 = True, irq_pre = 0, irq_mid = 0\<rparr> boot))) =
     overlay_frame ''Sunrise:00:00'' ''Sunset :22:00'' @
     status_frame True True True @ [Delay_ms 150]"
proof -
  let ?i = "\<lparr>RB0 = True, RD2 = True, irq_pre = 0, irq_mid = 0\<rparr>"
  have v: "valid_clock boot" by (simp add: valid_clock_def boot_def)
  have z: "fst (sun_log boot) = (0, 0)" by (simp add: sun_log_def boot_def)
  have e: "fst (main_cycle ?i boot) = Some SUNSET"
    by (simp add: main_cycle_edge boot_def)
  have n: "fst (main_cycle ?i boot) \<noteq> Some SUNRISE"
    by (simp add: e)
  have t: "HHMM (unat (hours boot)) (unat (minutes boot)) = ''22:00''"
    by (simp add: boot_def HHMM_def digit_def)
  have l: "bus (lcd boot) = []" by (simp add: boot_def)
  from first_edge_overlay [where s = boot and i = ?i] v z e n t l show ?thesis
    by simp
qed

section \<open>Reading the clock\<close>

text \<open>
  C9 as the spec states it fails on the code: the loop copies \<^verbatim>\<open>hours\<close> and then
  \<^verbatim>\<open>minutes\<close> with the interrupt enabled. At 05:59:59 with the latch at night, a day
  reading and one tick between the two copies, the sunrise entry becomes 05:00, which
  is neither the clock before the tick (05:59) nor the clock after it (06:00).
\<close>

theorem torn_clock_read_counterexample:
  "fst (main_cycle \<lparr>RB0 = False, RD2 = False, irq_pre = 0, irq_mid = 1\<rparr>
         (boot\<lparr>hours := 5, minutes := 59, seconds := 59, prevLDRState := 1\<rparr>)) = Some SUNRISE \<and>
   (hours (boot\<lparr>hours := 5, minutes := 59, seconds := 59, prevLDRState := 1\<rparr>),
    minutes (boot\<lparr>hours := 5, minutes := 59, seconds := 59, prevLDRState := 1\<rparr>)) = (5, 59) \<and>
   (hours (tick (boot\<lparr>hours := 5, minutes := 59, seconds := 59, prevLDRState := 1\<rparr>)),
    minutes (tick (boot\<lparr>hours := 5, minutes := 59, seconds := 59, prevLDRState := 1\<rparr>))) = (6, 0) \<and>
   fst (sun_log (snd (main_cycle \<lparr>RB0 = False, RD2 = False, irq_pre = 0, irq_mid = 1\<rparr>
         (boot\<lparr>hours := 5, minutes := 59, seconds := 59, prevLDRState := 1\<rparr>)))) = (5, 0)"
  by (simp add: main_cycle_edge main_cycle_sunrise sun_log_def tick_def ISR_fields boot_def)

text \<open>
  C9, amended. The handler runs to completion, so each field the loop copies is the
  field of a clock that a whole number of ticks has produced: the logged hours are the
  clock's hours when the edge is tested, the logged minutes are the clock's minutes
  after the ticks served between the two copies. With a valid clock the logged hours
  are below 24 and the logged minutes below 60, and when no tick is served between the
  two copies the logged pair is the clock's pair at that moment.
\<close>

theorem clock_read_fieldwise:
  "(fst (main_cycle i s) = Some SUNRISE \<longrightarrow>
      fst (sun_log (snd (main_cycle i s))) =
        (hours ((tick ^^ irq_pre i) s),
         minutes ((tick ^^ irq_mid i) ((tick ^^ irq_pre i) s))) \<and>
      (valid_clock s \<longrightarrow>
         sunrise_h (snd (main_cycle i s)) < 24 \<and> sunrise_m (snd (main_cycle i s)) < 60) \<and>
      (irq_mid i = 0 \<longrightarrow>
         fst (sun_log (snd (main_cycle i s))) =
           (hours ((tick ^^ irq_pre i) s), minutes ((tick ^^ irq_pre i) s)))) \<and>
   (fst (main_cycle i s) = Some SUNSET \<longrightarrow>
      snd (sun_log (snd (main_cycle i s))) =
        (hours ((tick ^^ irq_pre i) s),
         minutes ((tick ^^ irq_mid i) ((tick ^^ irq_pre i) s))) \<and>
      (valid_clock s \<longrightarrow>
         sunset_h (snd (main_cycle i s)) < 24 \<and> sunset_m (snd (main_cycle i s)) < 60) \<and>
      (irq_mid i = 0 \<longrightarrow>
         snd (sun_log (snd (main_cycle i s))) =
           (hours ((tick ^^ irq_pre i) s), minutes ((tick ^^ irq_pre i) s))))"
proof -
  have v: "valid_clock s \<Longrightarrow>
      hours ((tick ^^ irq_pre i) s) < 24 \<and>
      minutes ((tick ^^ irq_mid i) ((tick ^^ irq_pre i) s)) < 60"
    using valid_clock_ticks [of s "irq_pre i"]
      valid_clock_ticks [of "(tick ^^ irq_pre i) s" "irq_mid i"]
    by (simp add: valid_clock_def)
  show ?thesis
    using v
    by (auto simp add: main_cycle_edge main_cycle_sunrise main_cycle_sunset sun_log_def
        split: if_splits)
qed

theorem clock_read_fieldwise_witness:
  "fst (main_cycle \<lparr>RB0 = False, RD2 = False, irq_pre = 0, irq_mid = 0\<rparr>
         (boot\<lparr>hours := 5, minutes := 59, seconds := 59, prevLDRState := 1\<rparr>)) = Some SUNRISE \<and>
   valid_clock (boot\<lparr>hours := 5, minutes := 59, seconds := 59, prevLDRState := 1\<rparr>) \<and>
   irq_mid \<lparr>RB0 = False, RD2 = False, irq_pre = 0, irq_mid = 0\<rparr> = 0 \<and>
   fst (sun_log (snd (main_cycle \<lparr>RB0 = False, RD2 = False, irq_pre = 0, irq_mid = 0\<rparr>
         (boot\<lparr>hours := 5, minutes := 59, seconds := 59, prevLDRState := 1\<rparr>)))) = (5, 59) \<and>
   fst (main_cycle \<lparr>RB0 = True, RD2 = False, irq_pre = 0, irq_mid = 0\<rparr>
         (boot\<lparr>hours := 18, minutes := 30\<rparr>)) = Some SUNSET \<and>
   valid_clock (boot\<lparr>hours := 18, minutes := 30\<rparr>) \<and>
   snd (sun_log (snd (main_cycle \<lparr>RB0 = True, RD2 = False, irq_pre = 0, irq_mid = 0\<rparr>
         (boot\<lparr>hours := 18, minutes := 30\<rparr>)))) = (18, 30)"
proof -
  let ?i = "\<lparr>RB0 = False, RD2 = False, irq_pre = 0, irq_mid = 0\<rparr>"
  let ?w = "boot\<lparr>hours := 5, minutes := 59, seconds := 59, prevLDRState := 1\<rparr>"
  let ?j = "\<lparr>RB0 = True, RD2 = False, irq_pre = 0, irq_mid = 0\<rparr>"
  let ?u = "boot\<lparr>hours := 18, minutes := 30\<rparr>"
  have e: "fst (main_cycle ?i ?w) = Some SUNRISE"
    by (simp add: main_cycle_edge)
  have v: "valid_clock ?w" by (simp add: valid_clock_def)
  have e': "fst (main_cycle ?j ?u) = Some SUNSET"
    by (simp add: main_cycle_edge boot_def)
  have v': "valid_clock ?u" by (simp add: valid_clock_def boot_def)
  from clock_read_fieldwise [of ?i ?w] e
  have "fst (sun_log (snd (main_cycle ?i ?w))) = (5, 59)" by simp
  moreover from clock_read_fieldwise [of ?j ?u] e'
  have "snd (sun_log (snd (main_cycle ?j ?u))) = (18, 30)" by simp
  ultimately show ?thesis using e v e' v' by simp
qed

end
